theory Spec2Isabelle
  imports Main "HOL-Library.Sublist" "HOL-Library.Product_Lexorder"
begin

section \<open>Values, failures and the item context\<close>

text \<open>
  The library is written in TypeScript (\<^verbatim>\<open>src/lib/index.ts\<close>). A sequence hands out
  a cursor (\<^verbatim>\<open>getEnumerator\<close>), and every operation is a loop
  \<^verbatim>\<open>while (e.moveNext())\<close> over that cursor. \<^verbatim>\<open>moveNext\<close> steps through the items
  of the source once, in order, and answers false from the end on; so a sequence is
  given here by the list of the items its cursor yields, and each loop is a recursion
  over that list. A lazy operator (a generator behind \<^verbatim>\<open>from\<close>) is given by the list
  of the items it yields when it is driven to its end.

  Items of a sequence are kept polymorphic (\<open>'a\<close>). Values that the code inspects
  dynamically (optional arguments, default values, results of user callbacks before
  they are coerced to a boolean) are JavaScript values; the fragment needed here is
  \<open>jsval\<close>.
\<close>

datatype jsval = JUndefined | JNull | JBool bool | JNum int | JStr string

text \<open>JavaScript truthiness (\<^verbatim>\<open>!v\<close>, \<^verbatim>\<open>v ? a : b\<close>) on that fragment.\<close>

fun truthy :: "jsval \<Rightarrow> bool" where
  "truthy JUndefined = False"
| "truthy JNull = False"
| "truthy (JBool b) = b"
| "truthy (JNum n) = (n \<noteq> 0)"
| "truthy (JStr s) = (s \<noteq> [])"

text \<open>Every \<^verbatim>\<open>throw\<close> of the source is a value of \<open>error\<close>.\<close>

datatype error =
    NoMatchingElement       \<comment> \<open>"No matching element found!"\<close>
  | MoreThanOneMatch        \<comment> \<open>"Sequence contains more than one matching element!"\<close>
  | IndexOutOfRange int     \<comment> \<open>"Index out of range: ..."\<close>
  | CollectionIsReadOnly    \<comment> \<open>"Collection is read-only!"\<close>
  | LambdaSyntaxError       \<comment> \<open>"Syntax error in '...' expression!"\<close>
  | NoValidLambda           \<comment> \<open>"'...' is NO valid lambda expression!"\<close>

text \<open>
  \<^verbatim>\<open>class ItemContext\<close>: the index of the step, the value handed over by the previous
  step, and the three fields a callback may write: \<^verbatim>\<open>cancel\<close>, \<^verbatim>\<open>nextValue\<close> and
  \<^verbatim>\<open>value\<close> (named \<open>ctx_value\<close> here). An unset field is \<open>None\<close>
  (\<^verbatim>\<open>undefined\<close>). The field \<^verbatim>\<open>item\<close> delegates to the cursor's current element,
  which the loops below pass to the callback as its first argument.
\<close>

record 'v ItemContext =
  index :: int
  previousValue :: "'v option"
  cancel :: bool
  nextValue :: "'v option"
  ctx_value :: "'v option"

definition newItemContext :: "int \<Rightarrow> 'v option \<Rightarrow> 'v ItemContext" where
  "newItemContext i prev =
     \<lparr>index = i, previousValue = prev, cancel = False, nextValue = None, ctx_value = None\<rparr>"

definition isFirst :: "'v ItemContext \<Rightarrow> bool" where
  "isFirst ctx = (0 = index ctx)"

text \<open>
  A callback is called with the item and the context. It may write the context and it
  may change variables it has captured; the captured state is the explicit \<open>'s\<close>.
\<close>

type_synonym ('s, 'a, 'v, 'r) callback =
  "'s \<Rightarrow> 'a \<Rightarrow> 'v ItemContext \<Rightarrow> 'r \<times> 'v ItemContext \<times> 's"

section \<open>Arguments that are a function, a lambda text or a plain value\<close>

text \<open>
  Most operators take an argument that may be a function, a string holding a lambda
  expression, or something else (\<^verbatim>\<open>asFunc\<close> sorts this out at run time). The
  regular expression and the \<^verbatim>\<open>eval\<close> that \<^verbatim>\<open>asFunc\<close> applies to a string belong
  to the host, so an argument arrives already classified:
  \<^item> \<open>Callable f\<close>: \<^verbatim>\<open>typeof v === "function"\<close>;
  \<^item> \<open>LambdaText f\<close>: a string that matches the lambda pattern with balanced
    parentheses, \<open>f\<close> being the function \<^verbatim>\<open>eval\<close> builds from it;
  \<^item> \<open>BadLambdaText\<close>: a string that matches the lambda pattern with only one of the
    two parentheses;
  \<^item> \<open>Plain v\<close>: any other value (a string here does not match the lambda pattern).
\<close>

datatype 'f jsarg = Callable 'f | LambdaText 'f | BadLambdaText | Plain jsval

text \<open>What \<^verbatim>\<open>asFunc\<close> returns: a function, or a value that is not one.\<close>

datatype 'f asFunc_result = AFunc 'f | AValue jsval

fun asFunc :: "'f jsarg \<Rightarrow> bool \<Rightarrow> error + 'f asFunc_result" where
  "asFunc (Callable f) throwException = Inr (AFunc f)"
| "asFunc (Plain v) throwException =
     (if \<not> truthy v then Inr (AValue v)
      else if throwException then Inl NoValidLambda
      else Inr (AValue (JBool False)))"
| "asFunc BadLambdaText throwException =
     (if throwException then Inl LambdaSyntaxError else Inr (AValue JNull))"
| "asFunc (LambdaText f) throwException = Inr (AFunc f)"

text \<open>
  \<^verbatim>\<open>toPredicateSafe\<close>: a function is wrapped so that its result is coerced to a
  boolean; anything else that \<^verbatim>\<open>asFunc\<close> lets through (always a falsy value) gives
  the predicate that accepts every item.
\<close>

definition coerced :: "('s, 'a, 'v, jsval) callback \<Rightarrow> ('s, 'a, 'v, bool) callback" where
  \<comment> \<open>\<^verbatim>\<open>function() { return func.apply(obj, arguments) ? true : false; }\<close>\<close>
  "coerced func s item ctx = (case func s item ctx of (r, ctx', s') \<Rightarrow> (truthy r, ctx', s'))"

definition always_true :: "('s, 'a, 'v, bool) callback" where
  \<comment> \<open>\<^verbatim>\<open>() => true\<close>\<close>
  "always_true s item ctx = (True, ctx, s)"

definition toPredicateSafe ::
  "(('s, 'a, 'v, jsval) callback) jsarg \<Rightarrow> error + ('s, 'a, 'v, bool) callback" where
  "toPredicateSafe val =
     (case asFunc val True of
        Inl e \<Rightarrow> Inl e
      | Inr (AFunc func) \<Rightarrow> Inr (coerced func)
      | Inr (AValue v) \<Rightarrow> Inr always_true)"

section \<open>first, elementAt\<close>

text \<open>
  The scan of \<^verbatim>\<open>first\<close> (and, word for word, of \<^verbatim>\<open>firstOrDefault\<close>): the
  \<^verbatim>\<open>while (e.moveNext())\<close> loop over the items the cursor still yields. Loop state:
  the callback's captured state \<open>s\<close>, \<^verbatim>\<open>index\<close>, \<^verbatim>\<open>prevVal\<close>, \<^verbatim>\<open>value\<close>. The
  result is \<open>Some item\<close> when \<^verbatim>\<open>found\<close> is set, with the callback's final state.
\<close>

fun first_loop ::
  "('s, 'a, 'v, bool) callback \<Rightarrow> 's \<Rightarrow> int \<Rightarrow> 'v option \<Rightarrow> 'v option \<Rightarrow> 'a list
     \<Rightarrow> 'a option \<times> 's" where
  "first_loop p s idx prevVal val [] = (None, s)"
| "first_loop p s idx prevVal val (item # rest) =
     (case p s item ((newItemContext (idx + 1) prevVal)\<lparr>ctx_value := val\<rparr>) of
        (doesMatch, ctx, s') \<Rightarrow>
          if cancel ctx then (None, s')
          else if doesMatch then (Some item, s')
          else first_loop p s' (idx + 1) (nextValue ctx) (ctx_value ctx) rest)"

definition first ::
  "(('s, 'a, 'v, jsval) callback) jsarg \<Rightarrow> 's \<Rightarrow> 'a list \<Rightarrow> error + 'a" where
  "first predicate s items =
     (case toPredicateSafe predicate of
        Inl e \<Rightarrow> Inl e
      | Inr p \<Rightarrow>
          (case fst (first_loop p s (- 1) None None items) of
             None \<Rightarrow> Inl NoMatchingElement
           | Some result \<Rightarrow> Inr result))"

text \<open>
  \<^verbatim>\<open>elementAt\<close>: the predicate handed to \<^verbatim>\<open>first\<close> is the closure
  \<^verbatim>\<open>(item, ctx) => 0 === index--\<close>; the captured \<^verbatim>\<open>index\<close> is its state.
  \<^verbatim>\<open>toNumber\<close> is the identity on a number.
\<close>

definition elementAt_predicate :: "(int, 'a, 'v, jsval) callback" where
  "elementAt_predicate i item ctx = (JBool (0 = i), ctx, i - 1)"

definition elementAt :: "int \<Rightarrow> 'a list \<Rightarrow> error + 'a" where
  "elementAt i items =
     (if i < 0 then Inl (IndexOutOfRange i)
      else first (Callable (elementAt_predicate :: (int, 'a, unit, jsval) callback)) i items)"

section \<open>distinct\<close>

text \<open>
  The inner \<^verbatim>\<open>for\<close> loop of \<^verbatim>\<open>distinctInner\<close>: scan the buffer \<^verbatim>\<open>temp\<close> from the
  left and stop at the first buffered item the comparer accepts (the current item is
  the comparer's left argument).
\<close>

fun alreadyExists :: "('a \<Rightarrow> 'a \<Rightarrow> bool) \<Rightarrow> 'a \<Rightarrow> 'a list \<Rightarrow> bool" where
  "alreadyExists ec item [] = False"
| "alreadyExists ec item (existingItem # temp) =
     (if ec item existingItem then True else alreadyExists ec item temp)"

text \<open>
  \<^verbatim>\<open>distinctInner\<close>: the generator's \<^verbatim>\<open>while (e.moveNext())\<close> loop over the items the
  cursor still yields, with the buffer \<^verbatim>\<open>temp\<close> as loop state. The result is the
  list of items the generator yields when it is driven to its end. The comparer has
  been through \<^verbatim>\<open>toEqualityComparerSafe\<close>, which coerces its result to a boolean.
\<close>

fun distinctInner :: "('a \<Rightarrow> 'a \<Rightarrow> bool) \<Rightarrow> 'a list \<Rightarrow> 'a list \<Rightarrow> 'a list" where
  "distinctInner ec temp [] = []"
| "distinctInner ec temp (item # rest) =
     (if alreadyExists ec item temp then distinctInner ec temp rest
      else item # distinctInner ec (temp @ [item]) rest)"

definition distinct_seq :: "('a \<Rightarrow> 'a \<Rightarrow> bool) \<Rightarrow> 'a list \<Rightarrow> 'a list" where
  "distinct_seq ec items = distinctInner ec [] items"

section \<open>The OrDefault family\<close>

text \<open>
  How an \<^verbatim>\<open>...OrDefault\<close> method was called: \<^verbatim>\<open>arguments.length\<close> is 0, 1 or 2.
  A parameter that was not passed is \<^verbatim>\<open>undefined\<close>.
\<close>

datatype 'f orDefault_call = NoArgs | OneArg "'f jsarg" | TwoArgs "'f jsarg" jsval

fun call_predicateOrDefaultValue :: "'f orDefault_call \<Rightarrow> 'f jsarg" where
  "call_predicateOrDefaultValue NoArgs = Plain JUndefined"
| "call_predicateOrDefaultValue (OneArg a) = a"
| "call_predicateOrDefaultValue (TwoArgs a d) = a"

fun call_defaultValue :: "'f orDefault_call \<Rightarrow> jsval" where
  "call_defaultValue NoArgs = JUndefined"
| "call_defaultValue (OneArg a) = JUndefined"
| "call_defaultValue (TwoArgs a d) = d"

fun call_argCount :: "'f orDefault_call \<Rightarrow> nat" where
  "call_argCount NoArgs = 0"
| "call_argCount (OneArg a) = 1"
| "call_argCount (TwoArgs a d) = 2"

text \<open>\<^verbatim>\<open>false === func\<close>: strict equality with the boolean \<^verbatim>\<open>false\<close>.\<close>

fun is_strictly_false :: "'f asFunc_result \<Rightarrow> bool" where
  "is_strictly_false (AValue (JBool b)) = (\<not> b)"
| "is_strictly_false r = False"

text \<open>
  \<^verbatim>\<open>defVal = predicate\<close>: the argument taken as a value. This is reached only after
  \<^verbatim>\<open>asFunc\<close> has returned \<^verbatim>\<open>false\<close>, that is for a \<open>Plain\<close> argument.
\<close>

fun arg_value :: "'f jsarg \<Rightarrow> jsval" where
  "arg_value (Plain v) = v"
| "arg_value a = JUndefined"

text \<open>\<^verbatim>\<open>toOrDefaultArgs\<close>; the result is the pair \<^verbatim>\<open>{predicate, defaultValue}\<close>.\<close>

definition toOrDefaultArgs ::
  "(('s, 'a, 'v, jsval) callback) jsarg \<Rightarrow> jsval \<Rightarrow> nat
     \<Rightarrow> error + (('s, 'a, 'v, bool) callback \<times> jsval)" where
  "toOrDefaultArgs predicateOrDefaultValue defaultValue argCount =
     (case asFunc predicateOrDefaultValue False of
        Inl e \<Rightarrow> Inl e
      | Inr func \<Rightarrow>
          (let (predicate, defVal) =
                 (if is_strictly_false func \<and> 1 = argCount
                  then (Plain JNull, arg_value predicateOrDefaultValue)
                  else (predicateOrDefaultValue, defaultValue))
           in case toPredicateSafe predicate of
                Inl e \<Rightarrow> Inl e
              | Inr p \<Rightarrow> Inr (p, defVal)))"

text \<open>The result of an \<^verbatim>\<open>...OrDefault\<close> method: an item or the default value.\<close>

datatype 'a item_or_default = Item 'a | Default jsval

definition firstOrDefault ::
  "(('s, 'a, 'v, jsval) callback) orDefault_call \<Rightarrow> 's \<Rightarrow> 'a list
     \<Rightarrow> error + 'a item_or_default" where
  "firstOrDefault call s items =
     (case toOrDefaultArgs (call_predicateOrDefaultValue call) (call_defaultValue call)
             (call_argCount call) of
        Inl e \<Rightarrow> Inl e
      | Inr (predicate, defaultValue) \<Rightarrow>
          (case fst (first_loop predicate s (- 1) None None items) of
             None \<Rightarrow> Inr (Default defaultValue)
           | Some result \<Rightarrow> Inr (Item result)))"

text \<open>
  \<^verbatim>\<open>elementAtOrDefault\<close> always calls \<^verbatim>\<open>firstOrDefault\<close> with two arguments: its
  closure and \<^verbatim>\<open>defaultValue\<close> (\<^verbatim>\<open>undefined\<close> when it was not passed).
\<close>

definition elementAtOrDefault :: "int \<Rightarrow> jsval \<Rightarrow> 'a list \<Rightarrow> error + 'a item_or_default" where
  "elementAtOrDefault i defaultValue items =
     (if i < 0 then Inl (IndexOutOfRange i)
      else firstOrDefault
             (TwoArgs (Callable (elementAt_predicate :: (int, 'a, unit, jsval) callback))
                defaultValue) i items)"

text \<open>
  The scan of \<^verbatim>\<open>last\<close> and \<^verbatim>\<open>lastOrDefault\<close>: as \<open>first_loop\<close>, but a match is
  remembered in \<^verbatim>\<open>result\<close> and the loop goes on.
\<close>

fun last_loop ::
  "('s, 'a, 'v, bool) callback \<Rightarrow> 's \<Rightarrow> int \<Rightarrow> 'v option \<Rightarrow> 'v option \<Rightarrow> 'a option
     \<Rightarrow> 'a list \<Rightarrow> 'a option \<times> 's" where
  "last_loop p s idx prevVal val result [] = (result, s)"
| "last_loop p s idx prevVal val result (item # rest) =
     (case p s item ((newItemContext (idx + 1) prevVal)\<lparr>ctx_value := val\<rparr>) of
        (doesMatch, ctx, s') \<Rightarrow>
          if cancel ctx then (result, s')
          else last_loop p s' (idx + 1) (nextValue ctx) (ctx_value ctx)
                 (if doesMatch then Some item else result) rest)"

definition lastOrDefault ::
  "(('s, 'a, 'v, jsval) callback) orDefault_call \<Rightarrow> 's \<Rightarrow> 'a list
     \<Rightarrow> error + 'a item_or_default" where
  "lastOrDefault call s items =
     (case toOrDefaultArgs (call_predicateOrDefaultValue call) (call_defaultValue call)
             (call_argCount call) of
        Inl e \<Rightarrow> Inl e
      | Inr (predicate, defaultValue) \<Rightarrow>
          (case fst (last_loop predicate s (- 1) None None None items) of
             None \<Rightarrow> Inr (Default defaultValue)
           | Some result \<Rightarrow> Inr (Item result)))"

section \<open>single, singleOrDefault\<close>

text \<open>
  The scan of \<^verbatim>\<open>single\<close> (and, word for word, of \<^verbatim>\<open>singleOrDefault\<close>): the first
  match is kept in \<^verbatim>\<open>result\<close>, a second match throws.
\<close>

fun single_loop ::
  "('s, 'a, 'v, bool) callback \<Rightarrow> 's \<Rightarrow> int \<Rightarrow> 'v option \<Rightarrow> 'v option \<Rightarrow> 'a option
     \<Rightarrow> 'a list \<Rightarrow> error + ('a option \<times> 's)" where
  "single_loop p s idx prevVal val result [] = Inr (result, s)"
| "single_loop p s idx prevVal val result (item # rest) =
     (case p s item ((newItemContext (idx + 1) prevVal)\<lparr>ctx_value := val\<rparr>) of
        (doesMatch, ctx, s') \<Rightarrow>
          if cancel ctx then Inr (result, s')
          else if doesMatch then
            (case result of
               None \<Rightarrow> single_loop p s' (idx + 1) (nextValue ctx) (ctx_value ctx) (Some item) rest
             | Some r \<Rightarrow> Inl MoreThanOneMatch)
          else single_loop p s' (idx + 1) (nextValue ctx) (ctx_value ctx) result rest)"

definition single ::
  "(('s, 'a, 'v, jsval) callback) jsarg \<Rightarrow> 's \<Rightarrow> 'a list \<Rightarrow> error + 'a" where
  "single predicate s items =
     (case toPredicateSafe predicate of
        Inl e \<Rightarrow> Inl e
      | Inr p \<Rightarrow>
          (case single_loop p s (- 1) None None None items of
             Inl e \<Rightarrow> Inl e
           | Inr (None, s') \<Rightarrow> Inl NoMatchingElement
           | Inr (Some result, s') \<Rightarrow> Inr result))"

definition singleOrDefault ::
  "(('s, 'a, 'v, jsval) callback) orDefault_call \<Rightarrow> 's \<Rightarrow> 'a list
     \<Rightarrow> error + 'a item_or_default" where
  "singleOrDefault call s items =
     (case toOrDefaultArgs (call_predicateOrDefaultValue call) (call_defaultValue call)
             (call_argCount call) of
        Inl e \<Rightarrow> Inl e
      | Inr (predicate, defaultValue) \<Rightarrow>
          (case single_loop predicate s (- 1) None None None items of
             Inl e \<Rightarrow> Inl e
           | Inr (None, s') \<Rightarrow> Inr (Default defaultValue)
           | Inr (Some result, s') \<Rightarrow> Inr (Item result)))"

section \<open>count, where, aggregate\<close>

text \<open>
  \<^verbatim>\<open>count\<close>: the loop with the counter \<^verbatim>\<open>cnt\<close>; the check of \<^verbatim>\<open>ctx.cancel\<close> comes
  before the counter is touched.
\<close>

fun count_loop ::
  "('s, 'a, 'v, bool) callback \<Rightarrow> 's \<Rightarrow> nat \<Rightarrow> int \<Rightarrow> 'v option \<Rightarrow> 'v option \<Rightarrow> 'a list
     \<Rightarrow> nat \<times> 's" where
  "count_loop p s cnt idx prevVal val [] = (cnt, s)"
| "count_loop p s cnt idx prevVal val (item # rest) =
     (case p s item ((newItemContext (idx + 1) prevVal)\<lparr>ctx_value := val\<rparr>) of
        (doesMatch, ctx, s') \<Rightarrow>
          if cancel ctx then (cnt, s')
          else count_loop p s' (if doesMatch then cnt + 1 else cnt) (idx + 1)
                 (nextValue ctx) (ctx_value ctx) rest)"

definition count ::
  "(('s, 'a, 'v, jsval) callback) jsarg \<Rightarrow> 's \<Rightarrow> 'a list \<Rightarrow> error + nat" where
  "count predicate s items =
     (case toPredicateSafe predicate of
        Inl e \<Rightarrow> Inl e
      | Inr p \<Rightarrow> Inr (fst (count_loop p s 0 (- 1) None None items)))"

text \<open>
  \<^verbatim>\<open>whereInner\<close>, the generator behind \<^verbatim>\<open>where\<close>: the list of the items it yields
  when it is driven to its end, with the callback's final state. \<^verbatim>\<open>where\<close> converts
  its argument with \<^verbatim>\<open>toPredicateSafe\<close> before the generator is built.
\<close>

fun whereInner ::
  "('s, 'a, 'v, bool) callback \<Rightarrow> 's \<Rightarrow> int \<Rightarrow> 'v option \<Rightarrow> 'v option \<Rightarrow> 'a list
     \<Rightarrow> 'a list \<times> 's" where
  "whereInner predicate s idx prevVal val [] = ([], s)"
| "whereInner predicate s idx prevVal val (item # rest) =
     (case predicate s item ((newItemContext (idx + 1) prevVal)\<lparr>ctx_value := val\<rparr>) of
        (doesMatch, ctx, s') \<Rightarrow>
          if cancel ctx then ([], s')
          else (case whereInner predicate s' (idx + 1) (nextValue ctx) (ctx_value ctx) rest of
                  (yielded, s'') \<Rightarrow> ((if doesMatch then [item] else []) @ yielded, s'')))"

definition where_seq ::
  "(('s, 'a, 'v, jsval) callback) jsarg \<Rightarrow> 's \<Rightarrow> 'a list \<Rightarrow> error + 'a list" where
  "where_seq predicate s items =
     (case toPredicateSafe predicate of
        Inl e \<Rightarrow> Inl e
      | Inr p \<Rightarrow> Inr (fst (whereInner p s (- 1) None None items)))"

text \<open>
  \<^verbatim>\<open>aggregate\<close>. An aggregator is called as \<^verbatim>\<open>a(result, item, ctx)\<close>. Without one
  (\<^verbatim>\<open>asFunc\<close> returns a falsy value) the default adds: \<^verbatim>\<open>result + item\<close>, the \<open>+\<close>
  of the item type standing for JavaScript's. At index 0 the aggregator is not
  called: \<^verbatim>\<open>currentResult\<close> is the item. \<^verbatim>\<open>result\<close> starts as \<^verbatim>\<open>defaultValue\<close>.
\<close>

type_synonym ('s, 'a, 'v) aggregator =
  "'s \<Rightarrow> 'a \<Rightarrow> 'a \<Rightarrow> 'v ItemContext \<Rightarrow> 'a \<times> 'v ItemContext \<times> 's"

definition default_aggregator :: "('s, 'a :: plus, 'v) aggregator" where
  "default_aggregator s result item ctx = (result + item, ctx, s)"

fun aggregate_loop ::
  "('s, 'a, 'v) aggregator \<Rightarrow> 's \<Rightarrow> 'a \<Rightarrow> int \<Rightarrow> 'v option \<Rightarrow> 'v option \<Rightarrow> 'a list
     \<Rightarrow> 'a \<times> 's" where
  "aggregate_loop a s result idx prevVal val [] = (result, s)"
| "aggregate_loop a s result idx prevVal val (item # rest) =
     (case (if 0 \<noteq> idx + 1
            then a s result item ((newItemContext (idx + 1) prevVal)\<lparr>ctx_value := val\<rparr>)
            else (item, (newItemContext (idx + 1) prevVal)\<lparr>ctx_value := val\<rparr>, s)) of
        (currentResult, ctx, s') \<Rightarrow>
          if cancel ctx then (result, s')
          else aggregate_loop a s' currentResult (idx + 1) (nextValue ctx) (ctx_value ctx) rest)"

definition aggregate ::
  "(('s, 'a :: plus, 'v) aggregator) jsarg \<Rightarrow> 's \<Rightarrow> 'a \<Rightarrow> 'a list \<Rightarrow> error + 'a" where
  "aggregate aggregator s defaultValue items =
     (case asFunc aggregator True of
        Inl e \<Rightarrow> Inl e
      | Inr r \<Rightarrow>
          (let a = (case r of AFunc f \<Rightarrow> f | AValue v \<Rightarrow> default_aggregator)
           in Inr (fst (aggregate_loop a s defaultValue (- 1) None None items))))"

text \<open>
  The description of \<^verbatim>\<open>aggregate\<close> in the specification, written as a left fold: the
  first item seeds the running result; every later item is one call
  \<open>(runningResult, item, context) \<rightarrow> newResult\<close>, the context carrying the step's index
  and the values handed on; after a call that cancels, nothing changes any more; the
  empty sequence gives the default value.
\<close>

record ('s, 'a, 'v) fold_state =
  running :: 'a
  step :: int
  handed_on :: "'v option"
  carried :: "'v option"
  captured :: 's
  stopped :: bool

definition aggregate_step ::
  "('s, 'a, 'v) aggregator \<Rightarrow> ('s, 'a, 'v) fold_state \<Rightarrow> 'a \<Rightarrow> ('s, 'a, 'v) fold_state" where
  "aggregate_step a st item =
     (if stopped st then st
      else case a (captured st) (running st) item
                  ((newItemContext (step st) (handed_on st))\<lparr>ctx_value := carried st\<rparr>) of
             (newResult, ctx, s') \<Rightarrow>
               if cancel ctx then st\<lparr>captured := s', stopped := True\<rparr>
               else \<lparr>running = newResult, step = step st + 1, handed_on = nextValue ctx,
                      carried = ctx_value ctx, captured = s', stopped = False\<rparr>)"

definition aggregate_spec :: "('s, 'a, 'v) aggregator \<Rightarrow> 's \<Rightarrow> 'a \<Rightarrow> 'a list \<Rightarrow> 'a \<times> 's" where
  "aggregate_spec a s defaultValue items =
     (case items of
        [] \<Rightarrow> (defaultValue, s)
      | seed # rest \<Rightarrow>
          (let st = foldl (aggregate_step a)
                      \<lparr>running = seed, step = 1, handed_on = None, carried = None,
                       captured = s, stopped = False\<rparr> rest
           in (running st, captured st)))"

section \<open>toArray\<close>

text \<open>
  A key selector is called as \<^verbatim>\<open>ks(e.key, item, ctx)\<close> and returns the slot. The cursor
  \<^verbatim>\<open>e\<close> is fresh, so its key is the index of the step. The argument \<^verbatim>\<open>true\<close> stands
  for \<^verbatim>\<open>(key) => parseInt(('' + key).trim())\<close>, which gives an integer key back.
\<close>

type_synonym ('s, 'a, 'v) keySelector =
  "'s \<Rightarrow> int \<Rightarrow> 'a \<Rightarrow> 'v ItemContext \<Rightarrow> int \<times> 'v ItemContext \<times> 's"

definition key_as_index :: "('s, 'a, 'v) keySelector" where
  "key_as_index s key item ctx = (key, ctx, s)"

text \<open>\<^verbatim>\<open>true === keySelector\<close>\<close>

fun is_strictly_true :: "'f jsarg \<Rightarrow> bool" where
  "is_strictly_true (Plain (JBool b)) = b"
| "is_strictly_true a = False"

text \<open>
  The loop of \<^verbatim>\<open>toArray\<close> with the array \<^verbatim>\<open>arr\<close> under construction. Without a key
  selector the action is \<^verbatim>\<open>arr.push(ctx.item)\<close>. With one, the action calls it and
  then evaluates the expression statement \<^verbatim>\<open>arr[k];\<close>, which reads slot \<open>k\<close> and
  stores nothing. \<^verbatim>\<open>ctx.cancel\<close> is tested before the action runs, on the fresh
  context.
\<close>

fun toArray_loop ::
  "(('s, 'a, 'v) keySelector) asFunc_result \<Rightarrow> 's \<Rightarrow> 'a list \<Rightarrow> int \<Rightarrow> 'v option \<Rightarrow> 'v option
     \<Rightarrow> 'a list \<Rightarrow> 'a list" where
  "toArray_loop ks s arr idx prevVal val [] = arr"
| "toArray_loop ks s arr idx prevVal val (item # rest) =
     (let ctx = (newItemContext (idx + 1) prevVal)\<lparr>ctx_value := val\<rparr>
      in if cancel ctx then arr
         else case ks of
                AValue v \<Rightarrow>
                  toArray_loop ks s (arr @ [item]) (idx + 1) (nextValue ctx) (ctx_value ctx) rest
              | AFunc f \<Rightarrow>
                  (case f s (idx + 1) item ctx of
                     (k, ctx', s') \<Rightarrow>
                       toArray_loop ks s' arr (idx + 1) (nextValue ctx') (ctx_value ctx') rest))"

definition toArray ::
  "(('s, 'a, 'v) keySelector) jsarg \<Rightarrow> 's \<Rightarrow> 'a list \<Rightarrow> error + 'a list" where
  "toArray keySelector s items =
     (case asFunc (if is_strictly_true keySelector then Callable key_as_index else keySelector)
             True of
        Inl e \<Rightarrow> Inl e
      | Inr ks \<Rightarrow> Inr (toArray_loop ks s [] (- 1) None None items))"

section \<open>Collection, HashSet, List, ReadOnlyCollection\<close>

text \<open>
  \<^verbatim>\<open>Collection\<close> and its subclasses \<^verbatim>\<open>HashSet\<close>, \<^verbatim>\<open>List\<close> and
  \<^verbatim>\<open>ReadOnlyCollection\<close> (a \<^verbatim>\<open>List\<close> whose \<^verbatim>\<open>isReadonly\<close> is true). An object
  is its class and the fields \<^verbatim>\<open>_arr\<close>, \<^verbatim>\<open>_comparer\<close>, \<^verbatim>\<open>_hasChanged\<close>. A method
  returns the failure, or its result with the updated object.
\<close>

datatype collection_class = Collection_class | HashSet_class | List_class | ReadOnlyCollection_class

record 'a Collection =
  coll_class :: collection_class
  coll_arr :: "'a list"
  coll_comparer :: "'a \<Rightarrow> 'a \<Rightarrow> bool"
  coll_hasChanged :: bool

text \<open>
  The constructors: \<^verbatim>\<open>_arr\<close> is a copy of the items of \<^verbatim>\<open>seq\<close>; \<^verbatim>\<open>HashSet\<close> passes
  it through \<^verbatim>\<open>distinct\<close>. The comparer has been through \<^verbatim>\<open>toEqualityComparerSafe\<close>.
\<close>

definition new_Collection ::
  "collection_class \<Rightarrow> 'a list \<Rightarrow> ('a \<Rightarrow> 'a \<Rightarrow> bool) \<Rightarrow> 'a Collection" where
  "new_Collection cls seq comparer =
     \<lparr>coll_class = cls,
      coll_arr = (if cls = HashSet_class then distinct_seq comparer seq else seq),
      coll_comparer = comparer,
      coll_hasChanged = False\<rparr>"

definition isReadonly :: "'a Collection \<Rightarrow> bool" where
  "isReadonly c = (coll_class c = ReadOnlyCollection_class)"

text \<open>
  \<^verbatim>\<open>throwIfReadOnly\<close>: the body is the single statement
  \<^verbatim>\<open>throw "Collection is read-only!";\<close>. It does not look at \<^verbatim>\<open>isReadonly\<close>.
\<close>

definition throwIfReadOnly :: "'a Collection \<Rightarrow> error + unit" where
  "throwIfReadOnly c = Inl CollectionIsReadOnly"

definition markAsChanged ::
  "('a Collection \<Rightarrow> 'r \<times> 'a Collection) \<Rightarrow> 'a Collection \<Rightarrow> 'r \<times> 'a Collection" where
  "markAsChanged func c = (case func c of (result, c') \<Rightarrow> (result, c'\<lparr>coll_hasChanged := True\<rparr>))"

definition Collection_add :: "'a \<Rightarrow> 'a Collection \<Rightarrow> error + 'a Collection" where
  "Collection_add item c =
     (case throwIfReadOnly c of
        Inl e \<Rightarrow> Inl e
      | Inr u \<Rightarrow> Inr (snd (markAsChanged (\<lambda>x. ((), x\<lparr>coll_arr := coll_arr x @ [item]\<rparr>)) c)))"

text \<open>
  The scan of \<^verbatim>\<open>containsItem\<close>, which \<^verbatim>\<open>addIfNotPresent\<close> repeats: the stored item
  is the comparer's left argument.
\<close>

fun containsItem_loop :: "('a \<Rightarrow> 'a \<Rightarrow> bool) \<Rightarrow> 'a \<Rightarrow> 'a list \<Rightarrow> bool" where
  "containsItem_loop comparer item [] = False"
| "containsItem_loop comparer item (x # rest) =
     (if comparer x item then True else containsItem_loop comparer item rest)"

definition containsItem :: "'a \<Rightarrow> 'a Collection \<Rightarrow> bool" where
  "containsItem item c = containsItem_loop (coll_comparer c) item (coll_arr c)"

definition addIfNotPresent :: "'a \<Rightarrow> 'a Collection \<Rightarrow> error + (bool \<times> 'a Collection)" where
  "addIfNotPresent item c =
     (if containsItem_loop (coll_comparer c) item (coll_arr c) then Inr (False, c)
      else case Collection_add item c of
             Inl e \<Rightarrow> Inl e
           | Inr c' \<Rightarrow> Inr (True, c'))"

definition HashSet_add :: "'a \<Rightarrow> 'a Collection \<Rightarrow> error + (bool \<times> 'a Collection)" where
  "HashSet_add item c = addIfNotPresent item c"

text \<open>
  \<^verbatim>\<open>this.add(item)\<close> as \<^verbatim>\<open>addRange\<close> calls it: \<^verbatim>\<open>HashSet\<close> overrides \<^verbatim>\<open>add\<close>.
\<close>

definition add :: "'a \<Rightarrow> 'a Collection \<Rightarrow> error + 'a Collection" where
  "add item c =
     (if coll_class c = HashSet_class
      then (case HashSet_add item c of Inl e \<Rightarrow> Inl e | Inr (added, c') \<Rightarrow> Inr c')
      else Collection_add item c)"

fun addRange :: "'a list \<Rightarrow> 'a Collection \<Rightarrow> error + 'a Collection" where
  "addRange [] c = Inr c"
| "addRange (item # items) c =
     (case add item c of Inl e \<Rightarrow> Inl e | Inr c' \<Rightarrow> addRange items c')"

definition push :: "'a list \<Rightarrow> 'a Collection \<Rightarrow> error + (nat \<times> 'a Collection)" where
  "push items c =
     (case throwIfReadOnly c of
        Inl e \<Rightarrow> Inl e
      | Inr u \<Rightarrow>
          (case addRange items c of
             Inl e \<Rightarrow> Inl e
           | Inr c' \<Rightarrow> Inr (length (coll_arr c'), c')))"

definition clear :: "'a Collection \<Rightarrow> error + 'a Collection" where
  "clear c =
     (case throwIfReadOnly c of
        Inl e \<Rightarrow> Inl e
      | Inr u \<Rightarrow> Inr (snd (markAsChanged (\<lambda>x. ((), x\<lparr>coll_arr := []\<rparr>)) c)))"

text \<open>\<^verbatim>\<open>a.splice(i, 1)\<close> for an index inside the array.\<close>

definition splice_out :: "nat \<Rightarrow> 'a list \<Rightarrow> 'a list" where
  "splice_out i a = take i a @ drop (i + 1) a"

text \<open>
  The \<^verbatim>\<open>for\<close> loop of \<^verbatim>\<open>removeAll\<close>: \<open>i\<close> goes up by one in every round, also after
  a removal, and the bound is the current length. \<^verbatim>\<open>prevVal\<close> is never assigned and
  the context's \<^verbatim>\<open>value\<close> is not set.
\<close>

function removeAll_loop ::
  "('s, 'a, 'v, bool) callback \<Rightarrow> 's \<Rightarrow> 'a Collection \<Rightarrow> nat \<Rightarrow> nat
     \<Rightarrow> nat \<times> 'a Collection \<times> 's" where
  "removeAll_loop p s c i removedItems =
     (if i < length (coll_arr c) then
        (case p s (coll_arr c ! i) (newItemContext (int i) None) of
           (doRemove, ctx, s') \<Rightarrow>
             if cancel ctx then (removedItems, c, s')
             else if doRemove then
               removeAll_loop p s'
                 (snd (markAsChanged (\<lambda>x. ((), x\<lparr>coll_arr := splice_out i (coll_arr x)\<rparr>)) c))
                 (i + 1) (removedItems + 1)
             else removeAll_loop p s' c (i + 1) removedItems)
      else (removedItems, c, s))"
  by pat_completeness auto
termination
  by (relation "measure (\<lambda>(p, s, c, i, removedItems). length (coll_arr c) - i)")
     (auto simp: markAsChanged_def splice_out_def)

definition Collection_removeAll ::
  "(('s, 'a, 'v, jsval) callback) jsarg \<Rightarrow> 's \<Rightarrow> 'a Collection
     \<Rightarrow> error + (nat \<times> 'a Collection)" where
  "Collection_removeAll predicate s c =
     (case throwIfReadOnly c of
        Inl e \<Rightarrow> Inl e
      | Inr u \<Rightarrow>
          (case toPredicateSafe predicate of
             Inl e \<Rightarrow> Inl e
           | Inr p \<Rightarrow>
               (case removeAll_loop p s c 0 0 of
                  (removedItems, c', s') \<Rightarrow> Inr (removedItems, c'))))"

text \<open>
  \<^verbatim>\<open>remove\<close>: the closure handed to \<^verbatim>\<open>removeAll\<close> captures \<^verbatim>\<open>itemRemoved\<close>.
\<close>

definition remove_predicate :: "('a \<Rightarrow> 'a \<Rightarrow> bool) \<Rightarrow> 'a \<Rightarrow> (bool, 'a, 'v, jsval) callback" where
  "remove_predicate comparer item itemRemoved x ctx =
     (if itemRemoved then (JUndefined, ctx\<lparr>cancel := True\<rparr>, itemRemoved)
      else (JBool (comparer x item), ctx, comparer x item))"

definition remove :: "'a \<Rightarrow> 'a Collection \<Rightarrow> error + (bool \<times> 'a Collection)" where
  "remove item c =
     (case Collection_removeAll
             (Callable (remove_predicate (coll_comparer c) item :: (bool, 'a, unit, jsval) callback))
             False c of
        Inl e \<Rightarrow> Inl e
      | Inr (removedItems, c') \<Rightarrow> Inr (removedItems > 0, c'))"

text \<open>
  \<^verbatim>\<open>a[index] = item\<close>: a negative index sets a property and leaves the elements alone;
  an index past the end extends the array, the slots in between reading as \<open>hole\<close>
  (\<^verbatim>\<open>undefined\<close>).
\<close>

definition array_set :: "'a \<Rightarrow> int \<Rightarrow> 'a \<Rightarrow> 'a list \<Rightarrow> 'a list" where
  "array_set hole i item a =
     (if i < 0 then a
      else if nat i < length a then a[nat i := item]
      else a @ replicate (nat i - length a) hole @ [item])"

definition setItem :: "'a \<Rightarrow> int \<Rightarrow> 'a \<Rightarrow> 'a Collection \<Rightarrow> error + 'a Collection" where
  "setItem hole i item c =
     (case throwIfReadOnly c of
        Inl e \<Rightarrow> Inl e
      | Inr u \<Rightarrow>
          Inr (snd (markAsChanged (\<lambda>x. ((), x\<lparr>coll_arr := array_set hole i item (coll_arr x)\<rparr>)) c)))"

text \<open>
  \<^verbatim>\<open>a.splice(index, 0, item)\<close>: the start is clamped to the array, a negative one
  counting from the end.
\<close>

definition splice_start :: "int \<Rightarrow> nat \<Rightarrow> nat" where
  "splice_start i len = (if i < 0 then nat (max (int len + i) 0) else min (nat i) len)"

definition List_insert :: "int \<Rightarrow> 'a \<Rightarrow> 'a Collection \<Rightarrow> error + 'a Collection" where
  "List_insert i item c =
     (case throwIfReadOnly c of
        Inl e \<Rightarrow> Inl e
      | Inr u \<Rightarrow>
          Inr (snd (markAsChanged
                 (\<lambda>list. ((), list\<lparr>coll_arr :=
                    take (splice_start i (length (coll_arr list))) (coll_arr list) @ [item]
                    @ drop (splice_start i (length (coll_arr list))) (coll_arr list)\<rparr>)) c)))"

definition removeAt :: "int \<Rightarrow> 'a Collection \<Rightarrow> error + (bool \<times> 'a Collection)" where
  "removeAt i c =
     (case throwIfReadOnly c of
        Inl e \<Rightarrow> Inl e
      | Inr u \<Rightarrow>
          (if i \<ge> 0 \<and> i < int (length (coll_arr c))
           then Inr (markAsChanged (\<lambda>x. (True, x\<lparr>coll_arr := splice_out (nat i) (coll_arr x)\<rparr>)) c)
           else Inr (False, c)))"

section \<open>OrderedEnumerable\<close>

text \<open>
  A comparer returns a number. \<^verbatim>\<open>toComparerSafe\<close> wraps a given comparer so that the
  result is -1, 0 or 1, and supplies the default comparer (by \<^verbatim>\<open><\<close> and \<^verbatim>\<open>>\<close>) when
  none is given. Selectors and comparers are modelled from the point where \<^verbatim>\<open>asFunc\<close>
  has produced a function: a selector is a callback, a comparer is a function or
  absent.
\<close>

type_synonym 'k comparer = "'k \<Rightarrow> 'k \<Rightarrow> int"

definition default_comparer :: "('k :: ord) comparer" where
  "default_comparer x y = (if x < y then - 1 else if x > y then 1 else 0)"

definition normalised :: "'k comparer \<Rightarrow> 'k comparer" where
  "normalised comparer x y =
     (let sortValue = comparer x y
      in if sortValue > 0 then 1 else if sortValue < 0 then - 1 else 0)"

definition toComparerSafe :: "('k :: ord) comparer option \<Rightarrow> 'k comparer" where
  "toComparerSafe val = (case val of Some comparer \<Rightarrow> normalised comparer | None \<Rightarrow> default_comparer)"

text \<open>
  \<^verbatim>\<open>Array.prototype.sort(compareFn)\<close> belongs to the host. It is taken to be a stable
  sort driven by the comparer (as ECMAScript requires, and as section 4.4 of the
  specification assumes): insertion sort, where an item goes in front of the first
  item it does not compare greater than.
\<close>

fun sort_insert :: "'b comparer \<Rightarrow> 'b \<Rightarrow> 'b list \<Rightarrow> 'b list" where
  "sort_insert cmp x [] = [x]"
| "sort_insert cmp x (y # ys) = (if cmp x y \<le> 0 then x # y # ys else y # sort_insert cmp x ys)"

definition array_sort :: "'b comparer \<Rightarrow> 'b list \<Rightarrow> 'b list" where
  "array_sort cmp xs = foldr (sort_insert cmp) xs []"

text \<open>
  \<^verbatim>\<open>OrderedEnumerable\<close>: the fields \<^verbatim>\<open>_orderComparer\<close>, \<^verbatim>\<open>_originalItems\<close> and
  \<^verbatim>\<open>_orderSelector\<close>, the state the selector has captured, and the array behind
  \<^verbatim>\<open>_enumerator\<close> (\<open>orderedItems\<close>), which is what iterating the sequence yields.
\<close>

record ('s, 'a, 'v, 'k) OrderedEnumerable =
  orderComparer :: "'k comparer"
  originalItems :: "'a list"
  orderSelector :: "('s, 'a, 'v, 'k) callback"
  selectorState :: 's
  orderedItems :: "'a list"

text \<open>
  The \<^verbatim>\<open>map\<close> of the constructor: one selector call per item, with the context
  protocol (the index is the array index; there is no cancel check), giving the
  objects \<^verbatim>\<open>{sortBy, value}\<close> as pairs.
\<close>

fun sortValues ::
  "('s, 'a, 'v, 'k) callback \<Rightarrow> 's \<Rightarrow> int \<Rightarrow> 'v option \<Rightarrow> 'v option \<Rightarrow> 'a list
     \<Rightarrow> ('k \<times> 'a) list \<times> 's" where
  "sortValues selector s idx prevValue val [] = ([], s)"
| "sortValues selector s idx prevValue val (x # rest) =
     (case selector s x ((newItemContext idx prevValue)\<lparr>ctx_value := val\<rparr>) of
        (sortBy, ctx, s') \<Rightarrow>
          (case sortValues selector s' (idx + 1) (nextValue ctx) (ctx_value ctx) rest of
             (sorted_rest, s'') \<Rightarrow> ((sortBy, x) # sorted_rest, s'')))"

text \<open>
  The constructor. \<^verbatim>\<open>seq.toArray()\<close> is the list of the source's items. The filter
  \<^verbatim>\<open>x => !!x\<close> keeps every pair (an object is truthy).
\<close>

definition new_OrderedEnumerable ::
  "'a list \<Rightarrow> ('s, 'a, 'v, 'k :: ord) callback \<Rightarrow> 's \<Rightarrow> 'k comparer option
     \<Rightarrow> ('s, 'a, 'v, 'k) OrderedEnumerable" where
  "new_OrderedEnumerable seq selector s comparer =
     (case sortValues selector s 0 None None seq of
        (sortValues_of_seq, s') \<Rightarrow>
          \<lparr>orderComparer = toComparerSafe comparer,
           originalItems = seq,
           orderSelector = selector,
           selectorState = s',
           orderedItems =
             map snd (array_sort (\<lambda>x y. toComparerSafe comparer (fst x) (fst y))
                        sortValues_of_seq)\<rparr>)"

definition orderBy ::
  "'a list \<Rightarrow> ('s, 'a, 'v, 'k :: ord) callback \<Rightarrow> 's \<Rightarrow> 'k comparer option
     \<Rightarrow> ('s, 'a, 'v, 'k) OrderedEnumerable" where
  "orderBy seq selector s comparer = new_OrderedEnumerable seq selector s comparer"

text \<open>
  \<^verbatim>\<open>thenBy\<close>: the selector builds \<^verbatim>\<open>{level_0, level_1}\<close> (a pair), calling the
  primary selector and then the secondary one on the same context; the comparer
  compares level 0 and, on 0, level 1.
\<close>

definition thenBy_selector ::
  "('s, 'a, 'v, 'k) callback \<Rightarrow> ('t, 'a, 'v, 'l) callback \<Rightarrow> ('s \<times> 't, 'a, 'v, 'k \<times> 'l) callback" where
  "thenBy_selector selector0 selector1 st x ctx =
     (case selector0 (fst st) x ctx of
        (level_0, ctx0, s') \<Rightarrow>
          (case selector1 (snd st) x ctx0 of
             (level_1, ctx1, t') \<Rightarrow> ((level_0, level_1), ctx1, (s', t'))))"

definition thenBy_comparer :: "'k comparer \<Rightarrow> 'l comparer \<Rightarrow> ('k \<times> 'l) comparer" where
  "thenBy_comparer comparer0 c x y =
     (let compLevel0 = comparer0 (fst x) (fst y)
      in if 0 \<noteq> compLevel0 then compLevel0 else c (snd x) (snd y))"

definition thenBy ::
  "('s, 'a, 'v, 'k :: ord) OrderedEnumerable \<Rightarrow> ('t, 'a, 'v, 'l :: ord) callback \<Rightarrow> 't
     \<Rightarrow> 'l comparer option \<Rightarrow> ('s \<times> 't, 'a, 'v, 'k \<times> 'l) OrderedEnumerable" where
  "thenBy me selector t comparer =
     orderBy (originalItems me)
       (thenBy_selector (orderSelector me) selector) (selectorState me, t)
       (Some (thenBy_comparer (orderComparer me) (toComparerSafe comparer)))"

text \<open>A selector that only looks at the item, such as \<^verbatim>\<open>x => x.a\<close>.\<close>

definition pure_selector :: "('a \<Rightarrow> 'k) \<Rightarrow> ('s, 'a, 'v, 'k) callback" where
  "pure_selector k s x ctx = (k x, ctx, s)"

section \<open>Reading a scan\<close>

text \<open>The value a scan returns, without the callback's final state.\<close>

fun loop_result :: "error + ('r \<times> 's) \<Rightarrow> error + 'r" where
  "loop_result (Inl e) = Inl e"
| "loop_result (Inr (r, s)) = Inr r"

text \<open>
  A predicate that only looks at the item: it leaves the context alone (so it never
  cancels) and captures nothing it changes.
\<close>

definition pure_predicate :: "('a \<Rightarrow> bool) \<Rightarrow> ('s, 'a, 'v, jsval) callback" where
  "pure_predicate q s item ctx = (JBool (q item), ctx, s)"

text \<open>
  The items a predicate accepts before it cancels, when it is called on the items in
  turn under the context protocol (index from 0, \<^verbatim>\<open>previousValue\<close> and \<^verbatim>\<open>value\<close>
  handed on from call to call). This is the reference notion of "the elements that
  satisfy the predicate" for a predicate that may write its context.
\<close>

fun matches_before_cancel ::
  "('s, 'a, 'v, bool) callback \<Rightarrow> 's \<Rightarrow> int \<Rightarrow> 'v option \<Rightarrow> 'v option \<Rightarrow> 'a list
     \<Rightarrow> 'a list" where
  "matches_before_cancel p s idx prevVal val [] = []"
| "matches_before_cancel p s idx prevVal val (item # rest) =
     (case p s item ((newItemContext (idx + 1) prevVal)\<lparr>ctx_value := val\<rparr>) of
        (doesMatch, ctx, s') \<Rightarrow>
          if cancel ctx then []
          else (if doesMatch then [item] else [])
                 @ matches_before_cancel p s' (idx + 1) (nextValue ctx) (ctx_value ctx) rest)"

section \<open>Concrete callbacks and calls used in the examples\<close>

text \<open>\<^verbatim>\<open>(item, ctx) => { ctx.cancel = (k === ctx.index); return true; }\<close>\<close>

definition accept_and_cancel_at :: "int \<Rightarrow> (unit, int, unit, jsval) callback" where
  "accept_and_cancel_at k s item ctx = (JBool True, ctx\<lparr>cancel := (k = index ctx)\<rparr>, s)"

text \<open>\<^verbatim>\<open>(result, item, ctx) => { ctx.cancel = (k === ctx.index); return result + item; }\<close>\<close>

definition add_and_cancel_at :: "int \<Rightarrow> (unit, int, unit) aggregator" where
  "add_and_cancel_at k s result item ctx = (result + item, ctx\<lparr>cancel := (k = index ctx)\<rparr>, s)"

text \<open>
  Callbacks whose decisions depend on the item only:
  \<^verbatim>\<open>(item, ctx) => { ctx.cancel = c(item); return q(item); }\<close> and
  \<^verbatim>\<open>(result, item, ctx) => { ctx.cancel = c(item); return f(result, item); }\<close>.
\<close>

definition cancelling_predicate ::
  "('a \<Rightarrow> bool) \<Rightarrow> ('a \<Rightarrow> bool) \<Rightarrow> ('s, 'a, 'v, jsval) callback" where
  "cancelling_predicate q c s item ctx = (JBool (q item), ctx\<lparr>cancel := c item\<rparr>, s)"

definition cancelling_aggregator ::
  "('a \<Rightarrow> 'a \<Rightarrow> 'a) \<Rightarrow> ('a \<Rightarrow> bool) \<Rightarrow> ('s, 'a, 'v) aggregator" where
  "cancelling_aggregator f c s result item ctx = (f result item, ctx\<lparr>cancel := c item\<rparr>, s)"

definition even_predicate :: "(unit, int, unit, jsval) callback" where
  "even_predicate = pure_predicate even"

text \<open>\<^verbatim>\<open>seq.firstOrDefault(0)\<close> and \<^verbatim>\<open>seq.firstOrDefault(99)\<close>, and the like.\<close>

definition call_with_0 :: "((unit, int, unit, jsval) callback) orDefault_call" where
  "call_with_0 = OneArg (Plain (JNum 0))"

definition call_with_99 :: "((unit, int, unit, jsval) callback) orDefault_call" where
  "call_with_99 = OneArg (Plain (JNum 99))"

text \<open>\<^verbatim>\<open>new List([1])\<close>, a list that is not read-only.\<close>

definition example_list :: "int Collection" where
  "example_list = new_Collection List_class [1] (=)"

section \<open>Properties of distinct\<close>

lemma alreadyExists_iff: "alreadyExists ec item temp = (\<exists>y \<in> set temp. ec item y)"
  by (induction temp) auto

lemma distinctInner_append:
  "distinctInner ec temp (xs @ ys) =
     distinctInner ec temp xs @ distinctInner ec (temp @ distinctInner ec temp xs) ys"
  by (induction xs arbitrary: temp) auto

lemma distinctInner_again:
  "distinctInner ec temp (distinctInner ec temp xs) = distinctInner ec temp xs"
  by (induction xs arbitrary: temp) auto

lemma distinctInner_subseq: "subseq (distinctInner ec temp xs) xs"
  by (induction xs arbitrary: temp) auto

text \<open>
  C9. For every input sequence and every equality comparer, applying distinct with
  that comparer to the output of distinct yields the same items again.
\<close>

theorem distinct_idempotent:
  "distinct_seq ec (distinct_seq ec items) = distinct_seq ec items"
  unfolding distinct_seq_def by (rule distinctInner_again)

text \<open>
  C10. distinct keeps an item exactly when the comparer relates it to none of the
  items yielded before it, and it keeps the source order: feeding one more item
  \<open>x\<close> after \<open>items\<close> appends \<open>x\<close> to the output if no item yielded so far is
  comparer-equal to \<open>x\<close>, and changes nothing otherwise; the output is a subsequence
  of the input.
\<close>

theorem distinct_first_occurrences:
  "distinct_seq ec (items @ [x]) =
     (if (\<exists>y \<in> set (distinct_seq ec items). ec x y) then distinct_seq ec items
      else distinct_seq ec items @ [x])
   \<and> subseq (distinct_seq ec items) items"
  unfolding distinct_seq_def
  by (simp add: distinctInner_append alreadyExists_iff distinctInner_subseq)

theorem distinct_first_occurrences_witness:
  "distinct_seq (=) ([1, 2, 1] @ [2 :: int]) = [1, 2]
   \<and> distinct_seq (=) ([1, 2, 1] @ [3 :: int]) = [1, 2, 3]
   \<and> subseq (distinct_seq (=) [1, 2, 1 :: int]) [1, 2, 1]"
  using distinct_first_occurrences [of "(=)" "[1, 2, 1 :: int]" 2]
        distinct_first_occurrences [of "(=)" "[1, 2, 1 :: int]" 3]
  by (simp add: distinct_seq_def)

section \<open>first and elementAt\<close>

text \<open>
  C6. For every non-empty input sequence, first() without a predicate returns the
  same value as elementAt(0); both return the first item.
\<close>

theorem first_eq_elementAt_0:
  "items \<noteq> [] \<Longrightarrow>
     first (Plain JUndefined) s items = elementAt 0 items
     \<and> elementAt 0 items = Inr (hd items)"
  by (cases items)
     (simp_all add: first_def elementAt_def toPredicateSafe_def elementAt_predicate_def
        newItemContext_def coerced_def always_true_def)

theorem first_eq_elementAt_0_witness:
  "[7, 8, 9 :: int] \<noteq> []
   \<and> first (Plain JUndefined) () [7, 8, 9 :: int] = elementAt 0 [7, 8, 9]
   \<and> elementAt 0 [7, 8, 9 :: int] = Inr 7"
  using first_eq_elementAt_0 [of "[7, 8, 9 :: int]" "()"] by simp

section \<open>The OrDefault family: one argument that is not a function\<close>

lemma toOrDefaultArgs_plain_default:
  "truthy v \<or> v = JBool False \<Longrightarrow>
     toOrDefaultArgs (Plain v) JUndefined 1 = Inr (always_true, v)"
  by (auto simp: toOrDefaultArgs_def toPredicateSafe_def)

lemma toOrDefaultArgs_plain_falsy:
  "\<not> truthy v \<Longrightarrow> v \<noteq> JBool False \<Longrightarrow>
     toOrDefaultArgs (Plain v) JUndefined 1 = Inr (always_true, JUndefined)"
  by (cases v) (auto simp: toOrDefaultArgs_def toPredicateSafe_def)

text \<open>
  C5. A single argument that is not callable is to be the default value. The code
  does this for \<^verbatim>\<open>99\<close>, but not for \<^verbatim>\<open>0\<close>: on the empty sequence
  \<^verbatim>\<open>firstOrDefault(0)\<close>, \<^verbatim>\<open>lastOrDefault(0)\<close> and \<^verbatim>\<open>singleOrDefault(0)\<close> return
  \<^verbatim>\<open>undefined\<close>, where \<^verbatim>\<open>firstOrDefault(99)\<close> returns \<^verbatim>\<open>99\<close>.
\<close>

theorem orDefault_single_argument_0:
  "firstOrDefault call_with_0 () [] = Inr (Default JUndefined)
   \<and> lastOrDefault call_with_0 () [] = Inr (Default JUndefined)
   \<and> singleOrDefault call_with_0 () [] = Inr (Default JUndefined)
   \<and> firstOrDefault call_with_99 () [] = Inr (Default (JNum 99))"
  by (simp add: firstOrDefault_def lastOrDefault_def singleOrDefault_def call_with_0_def
        call_with_99_def toOrDefaultArgs_def toPredicateSafe_def)

section \<open>single and singleOrDefault\<close>

lemma single_loop_found:
  "loop_result (single_loop p s idx prevVal val (Some r) items) =
     (if matches_before_cancel p s idx prevVal val items = [] then Inr (Some r)
      else Inl MoreThanOneMatch)"
  by (induction items arbitrary: s idx prevVal val) (auto split: prod.splits)

lemma single_loop_not_found:
  "loop_result (single_loop p s idx prevVal val None items) =
     (case matches_before_cancel p s idx prevVal val items of
        [] \<Rightarrow> Inr None
      | [x] \<Rightarrow> Inr (Some x)
      | x # y # zs \<Rightarrow> Inl MoreThanOneMatch)"
proof (induction items arbitrary: s idx prevVal val)
  case Nil
  then show ?case by simp
next
  case (Cons item rest)
  then show ?case
    by (auto simp: single_loop_found split: prod.splits list.splits)
qed

lemma single_by_loop:
  "single (Callable f) s items =
     (case loop_result (single_loop (coerced f) s (- 1) None None None items) of
        Inl e \<Rightarrow> Inl e
      | Inr None \<Rightarrow> Inl NoMatchingElement
      | Inr (Some r) \<Rightarrow> Inr r)"
  by (auto simp: single_def toPredicateSafe_def split: sum.splits option.splits)

lemma singleOrDefault_by_loop:
  "singleOrDefault (TwoArgs (Callable f) d) s items =
     (case loop_result (single_loop (coerced f) s (- 1) None None None items) of
        Inl e \<Rightarrow> Inl e
      | Inr None \<Rightarrow> Inr (Default d)
      | Inr (Some r) \<Rightarrow> Inr (Item r))"
  by (auto simp: singleOrDefault_def toOrDefaultArgs_def toPredicateSafe_def
        split: sum.splits option.splits)

lemma singleOrDefault_one_argument:
  "singleOrDefault (OneArg (Callable f)) s items =
     singleOrDefault (TwoArgs (Callable f) JUndefined) s items"
  by (simp add: singleOrDefault_def toOrDefaultArgs_def)

lemma matches_before_cancel_pure:
  "matches_before_cancel (coerced (pure_predicate q)) s idx prevVal val items = filter q items"
  by (induction items arbitrary: s idx prevVal val)
     (auto simp: coerced_def pure_predicate_def newItemContext_def)

text \<open>
  C8, as the claim states it, fails for a predicate that cancels: the predicate below
  returns true for both items of \<open>[1, 1]\<close> and cancels on the second one; neither
  \<^verbatim>\<open>single\<close> nor \<^verbatim>\<open>singleOrDefault\<close> throws, both return the first item.
\<close>

theorem single_cancelled_counterexample:
  "fst ((accept_and_cancel_at 1) () 1 (newItemContext 0 None)) = JBool True
   \<and> fst ((accept_and_cancel_at 1) () 1 (newItemContext 1 None)) = JBool True
   \<and> single (Callable (accept_and_cancel_at 1)) () [1, 1] = Inr 1
   \<and> singleOrDefault (OneArg (Callable (accept_and_cancel_at 1))) () [1, 1] = Inr (Item 1)"
  by (simp add: single_def singleOrDefault_def toOrDefaultArgs_def toPredicateSafe_def
        coerced_def accept_and_cancel_at_def newItemContext_def)

text \<open>
  C8, amended. What counts are the elements the predicate accepts before it cancels
  the scan: \<^verbatim>\<open>single\<close> and \<^verbatim>\<open>singleOrDefault\<close> throw when there is more than one of
  them; when there is none, \<^verbatim>\<open>single\<close> throws and \<^verbatim>\<open>singleOrDefault\<close> returns the
  default value (\<^verbatim>\<open>undefined\<close> when none was passed); when there is exactly one,
  both return it. For a predicate that only
  looks at the item (and so never cancels) these elements are all the elements of the
  sequence that satisfy it.
\<close>

theorem single_multiple_matches:
  "single (Callable f) s items =
     (case matches_before_cancel (coerced f) s (- 1) None None items of
        [] \<Rightarrow> Inl NoMatchingElement
      | [x] \<Rightarrow> Inr x
      | x # y # zs \<Rightarrow> Inl MoreThanOneMatch)
   \<and> singleOrDefault (TwoArgs (Callable f) d) s items =
     (case matches_before_cancel (coerced f) s (- 1) None None items of
        [] \<Rightarrow> Inr (Default d)
      | [x] \<Rightarrow> Inr (Item x)
      | x # y # zs \<Rightarrow> Inl MoreThanOneMatch)
   \<and> singleOrDefault (OneArg (Callable f)) s items =
     (case matches_before_cancel (coerced f) s (- 1) None None items of
        [] \<Rightarrow> Inr (Default JUndefined)
      | [x] \<Rightarrow> Inr (Item x)
      | x # y # zs \<Rightarrow> Inl MoreThanOneMatch)
   \<and> matches_before_cancel (coerced (pure_predicate q)) s' (- 1) None None items
       = filter q items"
  by (simp add: single_by_loop singleOrDefault_by_loop singleOrDefault_one_argument
        single_loop_not_found matches_before_cancel_pure split: list.splits)

theorem single_multiple_matches_witness:
  "single (Callable even_predicate) () [1, 2, 4] = Inl MoreThanOneMatch
   \<and> single (Callable even_predicate) () [1, 2, 3] = Inr 2
   \<and> single (Callable even_predicate) () [1, 3] = Inl NoMatchingElement
   \<and> singleOrDefault (TwoArgs (Callable even_predicate) (JNum 0)) () [1, 2, 4]
       = Inl MoreThanOneMatch
   \<and> singleOrDefault (TwoArgs (Callable even_predicate) (JNum 0)) () [1, 3]
       = Inr (Default (JNum 0))"
  using single_multiple_matches [where f = even_predicate and s = "()" and items = "[1, 2, 4]"
          and d = "JNum 0", THEN conjunct1]
        single_multiple_matches [where f = even_predicate and s = "()" and items = "[1, 2, 3]"
          and d = "JNum 0", THEN conjunct1]
        single_multiple_matches [where f = even_predicate and s = "()" and items = "[1, 3]"
          and d = "JNum 0", THEN conjunct1]
        single_multiple_matches [where f = even_predicate and s = "()" and items = "[1, 2, 4]"
          and d = "JNum 0", THEN conjunct2, THEN conjunct1]
        single_multiple_matches [where f = even_predicate and s = "()" and items = "[1, 3]"
          and d = "JNum 0", THEN conjunct2, THEN conjunct1]
  by (simp add: even_predicate_def matches_before_cancel_pure
        del: matches_before_cancel.simps)

section \<open>aggregate\<close>

lemma foldl_stopped: "stopped st \<Longrightarrow> foldl (aggregate_step a) st items = st"
  by (induction items) (auto simp: aggregate_step_def)

lemma aggregate_loop_foldl:
  "0 \<le> idx \<Longrightarrow>
   aggregate_loop a s result idx prevVal val items =
     (let st = foldl (aggregate_step a)
                 \<lparr>running = result, step = idx + 1, handed_on = prevVal, carried = val,
                  captured = s, stopped = False\<rparr> items
      in (running st, captured st))"
proof (induction items arbitrary: s result idx prevVal val)
  case Nil
  then show ?case by simp
next
  case (Cons item rest)
  obtain r ctx s' where call:
    "a s result item ((newItemContext (idx + 1) prevVal)\<lparr>ctx_value := val\<rparr>) = (r, ctx, s')"
    by (metis prod_cases3)
  let ?st = "\<lparr>running = result, step = idx + 1, handed_on = prevVal, carried = val,
               captured = s, stopped = False\<rparr>"
  show ?case
  proof (cases "cancel ctx")
    case True
    have "aggregate_step a ?st item = ?st\<lparr>captured := s', stopped := True\<rparr>"
      using call True by (simp add: aggregate_step_def)
    then show ?thesis using Cons.prems call True
      by (simp add: foldl_stopped)
  next
    case False
    have "aggregate_step a ?st item =
            \<lparr>running = r, step = 2 + idx, handed_on = nextValue ctx, carried = ctx_value ctx,
             captured = s', stopped = False\<rparr>"
      using call False by (simp add: aggregate_step_def)
    then show ?thesis
      using Cons.prems call False Cons.IH [of "idx + 1" s' r "nextValue ctx" "ctx_value ctx"]
      by simp
  qed
qed

lemma aggregate_loop_spec:
  "aggregate_loop a s defaultValue (- 1) None None items = aggregate_spec a s defaultValue items"
  by (cases items) (simp_all add: aggregate_spec_def aggregate_loop_foldl newItemContext_def)


text \<open>
  C4. aggregate seeds the running result with the first item without calling the
  aggregator (the aggregator's captured state is untouched after a one-item
  sequence); from the second item on each step is one aggregator call on the running
  result, the item and the context; the empty sequence gives the default value;
  otherwise the result is the running result when the loop ends, by exhaustion or by
  a cancelling call. The aggregator is first called on the second item, so no call
  can cancel before the first item has become the running result.
\<close>

theorem aggregate_seed_and_fold:
  "aggregate (Callable a) s defaultValue items = Inr (fst (aggregate_spec a s defaultValue items))
   \<and> aggregate_loop a s defaultValue (- 1) None None items = aggregate_spec a s defaultValue items
   \<and> aggregate (Callable a) s defaultValue [] = Inr defaultValue
   \<and> aggregate_loop a s defaultValue (- 1) None None [x] = (x, s)"
  by (simp add: aggregate_def aggregate_loop_spec aggregate_spec_def newItemContext_def)

theorem aggregate_seed_and_fold_witness:
  "aggregate (Callable (add_and_cancel_at 3)) () 0 [1, 2, 3, 4, 5] = Inr 6
   \<and> fst (aggregate_spec (add_and_cancel_at 3) () 0 [1, 2, 3, 4, 5]) = 6
   \<and> aggregate (Callable (add_and_cancel_at 3)) () 0 [] = Inr 0"
  using aggregate_seed_and_fold [of "add_and_cancel_at 3" "()" 0 "[1, 2, 3, 4, 5]"]
  by (simp add: aggregate_spec_def aggregate_step_def add_and_cancel_at_def newItemContext_def
        aggregate_def)

section \<open>Cancellation\<close>

lemma whereInner_cancelling:
  "whereInner (coerced (cancelling_predicate q c)) s idx prevVal val items =
     (filter q (takeWhile (\<lambda>x. \<not> c x) items), s)"
  by (induction items arbitrary: idx prevVal val)
     (simp_all add: coerced_def cancelling_predicate_def)

lemma count_loop_cancelling:
  "count_loop (coerced (cancelling_predicate q c)) s cnt idx prevVal val items =
     (cnt + length (filter q (takeWhile (\<lambda>x. \<not> c x) items)), s)"
  by (induction items arbitrary: cnt idx prevVal val)
     (simp_all add: coerced_def cancelling_predicate_def)

lemma aggregate_loop_cancelling:
  "0 \<le> idx \<Longrightarrow>
   aggregate_loop (cancelling_aggregator f c) s result idx prevVal val items =
     (foldl f result (takeWhile (\<lambda>x. \<not> c x) items), s)"
  by (induction items arbitrary: result idx prevVal val)
     (simp_all add: cancelling_aggregator_def)

text \<open>
  C3, as the claim states it, fails. Over \<open>[1, 2, 3, 4, 5]\<close> the callback accepts
  every item and cancels at index 2 (the item 3). The claim has the item 3 still
  yielded, counted and folded: \<open>[1, 2, 3]\<close>, 3 and \<open>1 + 2 + 3 = 6\<close>. The code yields
  \<open>[1, 2]\<close>, counts 2 and returns \<open>1 + 2 = 3\<close>.
\<close>

theorem cancel_current_item_counterexample:
  "where_seq (Callable (accept_and_cancel_at 2)) () [1, 2, 3, 4, 5] = Inr [1, 2]
   \<and> count (Callable (accept_and_cancel_at 2)) () [1, 2, 3, 4, 5] = Inr 2
   \<and> aggregate (Callable (add_and_cancel_at 2)) () 0 [1, 2, 3, 4, 5] = Inr 3"
  by (simp add: where_seq_def count_def aggregate_def toPredicateSafe_def coerced_def
        accept_and_cancel_at_def add_and_cancel_at_def newItemContext_def)

text \<open>
  C3, amended. In every state of the loop of \<^verbatim>\<open>where\<close>, \<^verbatim>\<open>count\<close> and
  \<^verbatim>\<open>aggregate\<close>: if the callback sets cancel on the current item, the loop stops at
  once. The current item is not yielded, not counted and not folded (what the stage
  had before this item is its result), and no later item is considered: the result
  does not depend on the rest of the input, and the callback's captured state is the
  one this last call left. For callbacks that decide from the item alone, the result
  is that of the items before the first cancelling one.
\<close>

theorem cancel_stops_before_current_item:
  "(cancel (fst (snd (p s item ((newItemContext (idx + 1) prevVal)\<lparr>ctx_value := val\<rparr>)))) \<longrightarrow>
      whereInner p s idx prevVal val (item # rest)
        = ([], snd (snd (p s item ((newItemContext (idx + 1) prevVal)\<lparr>ctx_value := val\<rparr>))))
      \<and> count_loop p s cnt idx prevVal val (item # rest)
        = (cnt, snd (snd (p s item ((newItemContext (idx + 1) prevVal)\<lparr>ctx_value := val\<rparr>)))))
   \<and> (0 \<le> idx \<and>
       cancel (fst (snd (a t result item ((newItemContext (idx + 1) prevVal)\<lparr>ctx_value := val\<rparr>))))
       \<longrightarrow>
      aggregate_loop a t result idx prevVal val (item # rest)
        = (result, snd (snd (a t result item ((newItemContext (idx + 1) prevVal)\<lparr>ctx_value := val\<rparr>)))))
   \<and> where_seq (Callable (cancelling_predicate q c)) s' items
        = Inr (filter q (takeWhile (\<lambda>x. \<not> c x) items))
   \<and> count (Callable (cancelling_predicate q c)) s' items
        = Inr (length (filter q (takeWhile (\<lambda>x. \<not> c x) items)))
   \<and> aggregate (Callable (cancelling_aggregator f c)) t' defaultValue (x # xs)
        = Inr (foldl f x (takeWhile (\<lambda>x. \<not> c x) xs))"
proof -
  have stage: "cancel (fst (snd (p s item ((newItemContext (idx + 1) prevVal)\<lparr>ctx_value := val\<rparr>)))) \<longrightarrow>
      whereInner p s idx prevVal val (item # rest)
        = ([], snd (snd (p s item ((newItemContext (idx + 1) prevVal)\<lparr>ctx_value := val\<rparr>))))
      \<and> count_loop p s cnt idx prevVal val (item # rest)
        = (cnt, snd (snd (p s item ((newItemContext (idx + 1) prevVal)\<lparr>ctx_value := val\<rparr>))))"
    by (simp split: prod.splits)
  have fold: "0 \<le> idx \<and>
       cancel (fst (snd (a t result item ((newItemContext (idx + 1) prevVal)\<lparr>ctx_value := val\<rparr>))))
       \<longrightarrow>
      aggregate_loop a t result idx prevVal val (item # rest)
        = (result, snd (snd (a t result item ((newItemContext (idx + 1) prevVal)\<lparr>ctx_value := val\<rparr>))))"
    by (simp split: prod.splits)
  have w: "where_seq (Callable (cancelling_predicate q c)) s' items
        = Inr (filter q (takeWhile (\<lambda>x. \<not> c x) items))"
    by (simp add: where_seq_def toPredicateSafe_def whereInner_cancelling)
  have n: "count (Callable (cancelling_predicate q c)) s' items
        = Inr (length (filter q (takeWhile (\<lambda>x. \<not> c x) items)))"
    by (simp add: count_def toPredicateSafe_def count_loop_cancelling)
  have g: "aggregate (Callable (cancelling_aggregator f c)) t' defaultValue (x # xs)
        = Inr (foldl f x (takeWhile (\<lambda>x. \<not> c x) xs))"
    by (simp add: aggregate_def aggregate_loop_cancelling newItemContext_def)
  from stage fold w n g show ?thesis by blast
qed

theorem cancel_stops_before_current_item_witness:
  "cancel (fst (snd (coerced (accept_and_cancel_at 2) () 3 ((newItemContext (1 + 1) None)\<lparr>ctx_value := None\<rparr>))))
   \<and> whereInner (coerced (accept_and_cancel_at 2)) () 1 None None (3 # [4, 5]) = ([], ())
   \<and> count_loop (coerced (accept_and_cancel_at 2)) () 2 1 None None (3 # [4, 5]) = (2, ())
   \<and> 0 \<le> (1 :: int)
   \<and> cancel (fst (snd (add_and_cancel_at 2 () 3 3 ((newItemContext (1 + 1) None)\<lparr>ctx_value := None\<rparr>))))
   \<and> aggregate_loop (add_and_cancel_at 2) () 3 1 None None (3 # [4, 5]) = (3, ())"
proof -
  have c1: "cancel (fst (snd (coerced (accept_and_cancel_at 2) () 3
              ((newItemContext (1 + 1) None)\<lparr>ctx_value := None\<rparr>))))"
    by (simp add: coerced_def accept_and_cancel_at_def newItemContext_def)
  have c2: "cancel (fst (snd (add_and_cancel_at 2 () 3 3
              ((newItemContext (1 + 1) None)\<lparr>ctx_value := None\<rparr>))))"
    by (simp add: add_and_cancel_at_def newItemContext_def)
  note stage =
      cancel_stops_before_current_item [where p = "coerced (accept_and_cancel_at 2)" and s = "()"
        and item = 3 and idx = 1 and prevVal = None and val = None and rest = "[4, 5]"
        and cnt = 2 and a = "add_and_cancel_at 2" and t = "()" and result = 3]
  show ?thesis
    using c1 c2 stage [THEN conjunct1] stage [THEN conjunct2, THEN conjunct1]
    by (simp del: whereInner.simps count_loop.simps aggregate_loop.simps)
qed

section \<open>toArray\<close>

lemma toArray_loop_push:
  "toArray_loop (AValue v) s arr idx prevVal val items = arr @ items"
  by (induction items arbitrary: arr idx prevVal val) (simp_all add: newItemContext_def)

lemma toArray_loop_keySelector:
  "toArray_loop (AFunc f) s arr idx prevVal val items = arr"
  by (induction items arbitrary: s arr idx prevVal val)
     (simp_all add: newItemContext_def split: prod.splits)

lemma toArray_no_keySelector: "toArray (Plain JUndefined) s items = Inr items"
  by (simp add: toArray_def toArray_loop_push)

lemma toArray_with_keySelector: "toArray (Callable f) s items = Inr []"
  by (simp add: toArray_def toArray_loop_keySelector)

text \<open>
  C2. With a key selector every item is to be stored at the slot the selector
  computes. The code stores nothing: for \<open>[10, 20]\<close> and the selector that returns the
  key (slots 0 and 1), and for the argument \<^verbatim>\<open>true\<close>, the result is the empty array,
  where the claim has \<open>[10, 20]\<close>. Without a key selector the items are appended in
  iteration order.
\<close>

theorem toArray_keySelector_stores_nothing:
  "toArray (Callable (key_as_index :: (unit, int, unit) keySelector)) () [10, 20] = Inr []
   \<and> toArray (Plain (JBool True) :: ((unit, int, unit) keySelector) jsarg) () [10, 20] = Inr []
   \<and> toArray (Plain JUndefined :: ((unit, int, unit) keySelector) jsarg) () [10, 20]
       = Inr [10, 20]"
  by (simp add: toArray_def key_as_index_def newItemContext_def)


section \<open>Mutating a collection\<close>

lemma throwIfReadOnly_always: "throwIfReadOnly c = Inl CollectionIsReadOnly"
  by (simp add: throwIfReadOnly_def)

text \<open>
  C1. On a collection that is not read-only every mutating call is to succeed. The
  list \<^verbatim>\<open>new List([1])\<close> is not read-only, and each of \<^verbatim>\<open>add\<close>, \<^verbatim>\<open>addRange\<close>,
  \<^verbatim>\<open>push\<close>, \<^verbatim>\<open>clear\<close>, \<^verbatim>\<open>remove\<close>, \<^verbatim>\<open>removeAll\<close>, \<^verbatim>\<open>setItem\<close>, \<^verbatim>\<open>insert\<close>
  and \<^verbatim>\<open>removeAt\<close> fails on it with the read-only failure.
\<close>

theorem mutating_a_list_fails:
  "\<not> isReadonly example_list
   \<and> add 2 example_list = Inl CollectionIsReadOnly
   \<and> addRange [2] example_list = Inl CollectionIsReadOnly
   \<and> push [2] example_list = Inl CollectionIsReadOnly
   \<and> clear example_list = Inl CollectionIsReadOnly
   \<and> remove 1 example_list = Inl CollectionIsReadOnly
   \<and> Collection_removeAll (Callable even_predicate) () example_list = Inl CollectionIsReadOnly
   \<and> setItem 0 0 2 example_list = Inl CollectionIsReadOnly
   \<and> List_insert 0 2 example_list = Inl CollectionIsReadOnly
   \<and> removeAt 0 example_list = Inl CollectionIsReadOnly"
  by (simp add: example_list_def new_Collection_def isReadonly_def add_def Collection_add_def
        push_def clear_def remove_def Collection_removeAll_def setItem_def List_insert_def
        removeAt_def throwIfReadOnly_def)


section \<open>orderBy and thenBy\<close>

lemma sortValues_pure:
  "sortValues (pure_selector k) s idx prevValue val xs = (map (\<lambda>x. (k x, x)) xs, s)"
  by (induction xs arbitrary: idx prevValue val) (simp_all add: pure_selector_def)

lemma thenBy_selector_pure:
  "thenBy_selector (pure_selector k) (pure_selector l) = pure_selector (\<lambda>x. (k x, l x))"
  by (rule ext)+ (simp add: thenBy_selector_def pure_selector_def)

lemma normalised_range: "normalised c x y \<in> {- 1, 0, 1}"
  by (simp add: normalised_def Let_def)

lemma default_range: "default_comparer x y \<in> {- 1, 0, 1}"
  by (simp add: default_comparer_def)

lemma toComparerSafe_range: "toComparerSafe c x y \<in> {- 1, 0, 1}"
  using normalised_range [of _ x y] default_range [of x y]
  by (cases c) (auto simp: toComparerSafe_def)

lemma normalised_thenBy_comparer:
  "normalised (thenBy_comparer (toComparerSafe c0) (toComparerSafe c1)) =
     thenBy_comparer (toComparerSafe c0) (toComparerSafe c1)"
proof (rule ext, rule ext)
  fix x y
  have "thenBy_comparer (toComparerSafe c0) (toComparerSafe c1) x y \<in> {- 1, 0, 1}"
    using toComparerSafe_range [of c0 "fst x" "fst y"] toComparerSafe_range [of c1 "snd x" "snd y"]
    by (auto simp: thenBy_comparer_def Let_def)
  then show "normalised (thenBy_comparer (toComparerSafe c0) (toComparerSafe c1)) x y =
     thenBy_comparer (toComparerSafe c0) (toComparerSafe c1) x y"
    by (auto simp: normalised_def Let_def)
qed

lemma thenBy_pure:
  "orderedItems (thenBy (orderBy items (pure_selector k) s c0) (pure_selector l) t c1) =
     map snd (array_sort
                (\<lambda>x y. thenBy_comparer (toComparerSafe c0) (toComparerSafe c1) (fst x) (fst y))
                (map (\<lambda>x. ((k x, l x), x)) items))"
  by (simp add: thenBy_def orderBy_def new_OrderedEnumerable_def sortValues_pure
        thenBy_selector_pure toComparerSafe_def normalised_thenBy_comparer [unfolded toComparerSafe_def])


lemma sort_insert_decorated:
  assumes "\<And>a b. cmp a b \<le> 0 \<longleftrightarrow> a \<le> b"
  shows "sort_insert (\<lambda>x y. cmp (fst x) (fst y)) (key x, x) (map (\<lambda>x. (key x, x)) ys) =
           map (\<lambda>x. (key x, x)) (insort_key key x ys)"
  by (induction ys) (simp_all add: assms)

lemma array_sort_decorated:
  assumes "\<And>a b. cmp a b \<le> 0 \<longleftrightarrow> a \<le> b"
  shows "array_sort (\<lambda>x y. cmp (fst x) (fst y)) (map (\<lambda>x. (key x, x)) xs) =
           map (\<lambda>x. (key x, x)) (sort_key key xs)"
proof (induction xs)
  case Nil
  then show ?case by (simp add: array_sort_def)
next
  case (Cons x xs)
  have "array_sort (\<lambda>x y. cmp (fst x) (fst y)) (map (\<lambda>x. (key x, x)) (x # xs)) =
          sort_insert (\<lambda>x y. cmp (fst x) (fst y)) (key x, x)
            (array_sort (\<lambda>x y. cmp (fst x) (fst y)) (map (\<lambda>x. (key x, x)) xs))"
    by (simp add: array_sort_def)
  also have "\<dots> = map (\<lambda>x. (key x, x)) (insort_key key x (sort_key key xs))"
    by (simp add: Cons.IH sort_insert_decorated [OF assms])
  finally show ?case by (simp add: sort_key_def)
qed

lemma thenBy_comparer_default_le:
  fixes x y :: "('k :: linorder) \<times> ('l :: linorder)"
  shows "thenBy_comparer default_comparer default_comparer x y \<le> 0 \<longleftrightarrow> x \<le> y"
  by (auto simp: thenBy_comparer_def default_comparer_def Let_def less_eq_prod_def)

lemma thenBy_default_sort_key:
  fixes k :: "'a \<Rightarrow> 'k :: linorder" and l :: "'a \<Rightarrow> 'l :: linorder"
  shows "orderedItems (thenBy (orderBy items (pure_selector k) s None) (pure_selector l) t None) =
     sort_key (\<lambda>x. (k x, l x)) items"
proof -
  have "orderedItems (thenBy (orderBy items (pure_selector k) s None) (pure_selector l) t None) =
     map snd (array_sort
                (\<lambda>x y. thenBy_comparer default_comparer default_comparer (fst x) (fst y))
                (map (\<lambda>x. ((k x, l x), x)) items))"
    by (simp add: thenBy_pure toComparerSafe_def)
  also have "\<dots> = map snd (map (\<lambda>x. ((k x, l x), x)) (sort_key (\<lambda>x. (k x, l x)) items))"
    by (simp only: array_sort_decorated [where cmp = "thenBy_comparer default_comparer default_comparer"
          and key = "\<lambda>x. (k x, l x)", OF thenBy_comparer_default_le])
  also have "\<dots> = sort_key (\<lambda>x. (k x, l x)) items"
    by (simp add: comp_def)
  finally show ?thesis .
qed

text \<open>
  C7. For selectors that only look at the item, \<^verbatim>\<open>orderBy(k).thenBy(l)\<close> keeps the
  original item array, and its items are that original array (not the array sorted by
  the primary key) sorted with the composite comparer on the pairs of keys; the
  composite comparer returns the primary comparison unless that is 0, and the
  secondary comparison then. With the default comparers this is the stable sort by
  the pair (primary key, secondary key) in lexicographic order. For the objects
  \<^verbatim>\<open>{a:1,b:2}\<close>, \<^verbatim>\<open>{a:1,b:1}\<close>, written as pairs \<open>(a, b)\<close>, the result of
  \<^verbatim>\<open>orderBy(x => x.a).thenBy(x => x.b).toArray()\<close> is \<^verbatim>\<open>{a:1,b:1}\<close>, \<^verbatim>\<open>{a:1,b:2}\<close>.
\<close>

theorem thenBy_composite_comparer:
  fixes k' :: "'b \<Rightarrow> 'm :: linorder" and l' :: "'b \<Rightarrow> 'n :: linorder"
  shows
  "originalItems (thenBy (orderBy items (pure_selector k) s c0) (pure_selector l) t c1) = items
   \<and> orderedItems (thenBy (orderBy items (pure_selector k) s c0) (pure_selector l) t c1) =
       map snd (array_sort
                  (\<lambda>x y. thenBy_comparer (toComparerSafe c0) (toComparerSafe c1) (fst x) (fst y))
                  (map (\<lambda>x. ((k x, l x), x)) items))
   \<and> thenBy_comparer (toComparerSafe c0) (toComparerSafe c1) (a, b) (a', b') =
       (if toComparerSafe c0 a a' \<noteq> 0 then toComparerSafe c0 a a' else toComparerSafe c1 b b')
   \<and> orderedItems (thenBy (orderBy items' (pure_selector k') s' None) (pure_selector l') t' None)
       = sort_key (\<lambda>x. (k' x, l' x)) items'
   \<and> toArray (Plain JUndefined :: ((unit, int \<times> int, unit) keySelector) jsarg) ()
        (orderedItems
           (thenBy (orderBy [(1, 2), (1, 1)]
                      (pure_selector fst :: (unit, int \<times> int, unit, int) callback) () None)
              (pure_selector snd :: (unit, int \<times> int, unit, int) callback) () None))
       = Inr [(1, 1), (1, 2)]"
proof -
  have orig: "originalItems (thenBy (orderBy items (pure_selector k) s c0) (pure_selector l) t c1)
                = items"
    by (simp add: thenBy_def orderBy_def new_OrderedEnumerable_def split: prod.splits)
  have comp: "thenBy_comparer (toComparerSafe c0) (toComparerSafe c1) (a, b) (a', b') =
       (if toComparerSafe c0 a a' \<noteq> 0 then toComparerSafe c0 a a' else toComparerSafe c1 b b')"
    by (simp add: thenBy_comparer_def Let_def)
  have ex: "toArray (Plain JUndefined :: ((unit, int \<times> int, unit) keySelector) jsarg) ()
        (orderedItems
           (thenBy (orderBy [(1, 2), (1, 1)]
                      (pure_selector fst :: (unit, int \<times> int, unit, int) callback) () None)
              (pure_selector snd :: (unit, int \<times> int, unit, int) callback) () None))
       = Inr [(1, 1), (1, 2)]"
    by (simp add: thenBy_default_sort_key toArray_no_keySelector less_eq_prod_def)
  show ?thesis
    using orig thenBy_pure [of items k s c0 l t c1] comp
      thenBy_default_sort_key [of items' k' s' l' t'] ex
    by blast
qed

theorem thenBy_composite_comparer_witness:
  "orderedItems
     (thenBy (orderBy [(2, 2), (1, 3), (2, 1), (1, 1)]
                (pure_selector fst :: (unit, int \<times> int, unit, int) callback) () None)
        (pure_selector snd :: (unit, int \<times> int, unit, int) callback) () None)
     = [(1, 1), (1, 3), (2, 1), (2, 2)]"
  using thenBy_composite_comparer [where items' = "[(2, 2), (1, 3), (2, 1), (1, 1)]"
          and k' = "fst :: int \<times> int \<Rightarrow> int" and l' = "snd :: int \<times> int \<Rightarrow> int"
          and s' = "()" and t' = "()",
          THEN conjunct2, THEN conjunct2, THEN conjunct2, THEN conjunct1]
  by (simp add: less_eq_prod_def)

end
